theory Spec2Isabelle
  imports Main
begin

section \<open>Data model\<close>

text \<open>
  The types of the team-authentication library, as far as the functions verified below
  read them. Strings stand for user ids, host names, hashes and Base58-encoded key
  material; the cryptographic primitives are external and appear only as parameters.
\<close>

type_synonym Hash = string
type_synonym Base58 = string
type_synonym UnixTimestamp = nat

datatype KeyType = TEAM | ROLE | USER | DEVICE | SERVER | EPHEMERAL

record KeyScope =
  type :: KeyType
  name :: string

text \<open>
  \<open>KeyMetadata\<close> adds the generation to a scope; a keyset adds the public keys, and a
  keyset with secrets the key pairs and the symmetric secret key.
\<close>

record KeyMetadata = KeyScope +
  generation :: nat

record Keyset = KeyMetadata +
  encryption :: Base58
  signature :: Base58

record KeysetWithSecrets = KeyMetadata +
  encryptionPublicKey :: Base58
  encryptionSecretKey :: Base58
  signaturePublicKey :: Base58
  signatureSecretKey :: Base58
  secretKey :: Base58

record Lockbox =
  encryptionKey :: Base58
  recipient :: Keyset
  contents :: Keyset
  encryptedPayload :: Base58

record Device =
  userId :: string
  deviceName :: string
  keys :: Keyset

record Member =
  userId :: string
  userName :: string
  keys :: Keyset
  roles :: "string list"
  devices :: "Device list"

record Role =
  roleName :: string

record Server =
  host :: string
  keys :: Keyset

record Invitation =
  id :: Base58
  publicKey :: Base58
  expiration :: UnixTimestamp
  maxUses :: nat
  userId :: "string option"

record InvitationState = Invitation +
  uses :: nat
  revoked :: bool

text \<open>\<open>TeamState\<close>, with the fields of \<open>initialState\<close> in \<open>constants.ts\<close>.\<close>

record TeamState =
  head :: "Hash list"
  teamName :: string
  members :: "Member list"
  servers :: "Server list"
  roles :: "Role list"
  lockboxes :: "Lockbox list"
  invitations :: "Base58 \<rightharpoonup> InvitationState"
  removedMembers :: "Member list"
  removedDevices :: "Device list"
  removedServers :: "Server list"
  pendingKeyRotations :: "string list"

text \<open>The constant \<open>ALL\<close> of \<open>constants.ts\<close> (in HOL the name itself is a binder).\<close>

definition ALL_userId :: string where
  "ALL_userId = ''ALL''"

definition initialState :: TeamState where
  "initialState = \<lparr>head = [], teamName = '''', members = [], servers = [],
     TeamState.roles = [], lockboxes = [], invitations = Map.empty, removedMembers = [],
     removedDevices = [], removedServers = [], pendingKeyRotations = []\<rparr>"

text \<open>
  Modelled from the spec: the constant \<open>ADMIN\<close> of \<open>role/index.js\<close>, the name of the
  admin role. That module is not among the sources; no proof below unfolds the value.
\<close>

definition ADMIN :: string where
  "ADMIN = ''admin''"

datatype error =
  AssertionError string
  | NotFound string
  | TypeError string
  | ValidationError string

text \<open>
  The helper \<open>assert\<close> of \<open>util\<close>: it throws an error carrying the message when the
  condition is false.
\<close>

definition assert :: "bool \<Rightarrow> string \<Rightarrow> error + unit" where
  "assert condition message = (if condition then Inr () else Inl (AssertionError message))"

section \<open>Actions and the team graph\<close>

text \<open>
  The actions that \<open>Team.ts\<close> dispatches, each with the payload built there, and the
  root action that the constructor records in the root link.
\<close>

record ProofOfInvitation =
  id :: Base58
  proofValue :: Base58

datatype TeamAction =
  ROOT string Member Device "Lockbox list"
  | ADD_MEMBER Member "string list" "Lockbox list"
  | REMOVE_MEMBER string "Lockbox list"
  | ADD_ROLE Role "Lockbox list"
  | REMOVE_ROLE string
  | ADD_MEMBER_ROLE string string "Lockbox list"
  | REMOVE_MEMBER_ROLE string string "Lockbox list"
  | ADD_DEVICE Device "Lockbox list"
  | REMOVE_DEVICE string string "Lockbox list"
  | INVITE_MEMBER Invitation
  | INVITE_DEVICE Invitation
  | REVOKE_INVITATION Base58
  | ADMIT_MEMBER Base58 string Keyset "Lockbox list"
  | ADMIT_DEVICE Base58 string string Keyset "Lockbox list"
  | ADD_SERVER Server "Lockbox list"
  | REMOVE_SERVER string
  | CHANGE_MEMBER_KEYS Keyset "Lockbox list"
  | CHANGE_DEVICE_KEYS Keyset "Lockbox list"
  | CHANGE_SERVER_KEYS Keyset "Lockbox list"
  | ROTATE_KEYS string "Lockbox list"

text \<open>
  A link: its hash and its body (the action, the author's user id and the hashes of the
  predecessors).
\<close>

record TeamLinkBody =
  action :: TeamAction
  userId :: string
  prev :: "Hash list"

record TeamLink =
  hash :: Hash
  body :: TeamLinkBody

text \<open>
  Modelled from the spec: the graph as the operations of the graph library see it (that
  library is not among the sources). Links are content-addressed, so the \<open>links\<close>
  object is a map from hashes, and the head is the set of hashes that have no child.
  The encrypted bodies and the child map of a graph are keyed by the same hashes and
  derived from the links; they are left out.
\<close>

record Graph =
  root :: Hash
  head :: "Hash set"
  links :: "Hash \<rightharpoonup> TeamLink"

text \<open>
  The team's graph as \<open>bySeniority\<close> and the store read it: \<open>links\<close> is the list of the
  object's entries in insertion order, which is the order \<open>Object.values\<close> enumerates,
  and the head is a list of hashes.
\<close>

record TeamGraph =
  root :: Hash
  head :: "Hash list"
  links :: "(Hash \<times> TeamLink) list"

section \<open>Selectors\<close>

text \<open>
  Modelled from the spec: the selectors of \<open>team/selectors\<close> are not among the sources.
  They are the read-only queries over \<open>TeamState\<close> that the doc comments of \<open>Team.ts\<close>
  describe: whether a member, server or device is on the team, or was once on the team
  and has been removed; the members holding a role; one member or one device, with the
  removed ones searched only when \<open>includeRemoved\<close> is set, and an error when none is found.
\<close>

definition select_hasMember :: "TeamState \<Rightarrow> string \<Rightarrow> bool" where
  "select_hasMember s u = (u \<in> set (map Member.userId (members s)))"

definition select_memberWasRemoved :: "TeamState \<Rightarrow> string \<Rightarrow> bool" where
  "select_memberWasRemoved s u = (u \<in> set (map Member.userId (removedMembers s)))"

definition select_hasServer :: "TeamState \<Rightarrow> string \<Rightarrow> bool" where
  "select_hasServer s h = (h \<in> set (map host (servers s)))"

definition select_serverWasRemoved :: "TeamState \<Rightarrow> string \<Rightarrow> bool" where
  "select_serverWasRemoved s h = (h \<in> set (map host (removedServers s)))"

definition memberDevices :: "TeamState \<Rightarrow> string \<Rightarrow> Device list" where
  "memberDevices s u = concat (map devices (filter (\<lambda>m. Member.userId m = u) (members s)))"

definition select_hasDevice :: "TeamState \<Rightarrow> string \<Rightarrow> string \<Rightarrow> bool" where
  "select_hasDevice s u d = (d \<in> set (map deviceName (memberDevices s u)))"

definition select_deviceWasRemoved ::
  "(string \<Rightarrow> string \<Rightarrow> string) \<Rightarrow> TeamState \<Rightarrow> string \<Rightarrow> bool" where
  "select_deviceWasRemoved getDeviceId s deviceId =
     (deviceId \<in> set (map (\<lambda>d. getDeviceId (Device.userId d) (deviceName d)) (removedDevices s)))"

definition select_membersInRole :: "TeamState \<Rightarrow> string \<Rightarrow> Member list" where
  "select_membersInRole s r = filter (\<lambda>m. r \<in> set (Member.roles m)) (members s)"

definition select_memberHasRole :: "TeamState \<Rightarrow> string \<Rightarrow> string \<Rightarrow> bool" where
  "select_memberHasRole s u r = (u \<in> set (map Member.userId (select_membersInRole s r)))"

definition select_memberIsAdmin :: "TeamState \<Rightarrow> string \<Rightarrow> bool" where
  "select_memberIsAdmin s u = select_memberHasRole s u ADMIN"

record LookupOptions =
  includeRemoved :: bool

definition select_member :: "TeamState \<Rightarrow> string \<Rightarrow> LookupOptions \<Rightarrow> error + Member" where
  "select_member s u options =
     (let membersToSearch = members s @ (if includeRemoved options then removedMembers s else [])
      in case find (\<lambda>m. Member.userId m = u) membersToSearch of
           None \<Rightarrow> Inl (NotFound u)
         | Some m \<Rightarrow> Inr m)"

definition select_device ::
  "TeamState \<Rightarrow> string \<Rightarrow> string \<Rightarrow> LookupOptions \<Rightarrow> error + Device" where
  "select_device s u d options =
     (let removed = filter (\<lambda>x. Device.userId x = u) (removedDevices s);
          devicesToSearch = memberDevices s u @ (if includeRemoved options then removed else [])
      in case find (\<lambda>x. deviceName x = d) devicesToSearch of
           None \<Rightarrow> Inl (NotFound d)
         | Some x \<Rightarrow> Inr x)"

definition select_hasInvitation :: "TeamState \<Rightarrow> Base58 \<Rightarrow> bool" where
  "select_hasInvitation s i = (i \<in> dom (invitations s))"

definition select_getInvitation :: "TeamState \<Rightarrow> Base58 \<Rightarrow> error + InvitationState" where
  "select_getInvitation s i =
     (case invitations s i of None \<Rightarrow> Inl (NotFound i) | Some invitation \<Rightarrow> Inr invitation)"

section \<open>The team and its collaborators\<close>

record UserWithSecrets =
  userId :: string
  userName :: string
  keys :: KeysetWithSecrets

record DeviceWithSecrets =
  userId :: string
  deviceName :: string
  keys :: KeysetWithSecrets

record ServerWithSecrets =
  host :: string
  keys :: KeysetWithSecrets

text \<open>
  The local context: the user (absent while only the device is known), the device, and
  the server when the team runs on one. \<open>isServer\<close> reads whether \<open>server\<close> is present.
\<close>

record LocalUserContext =
  user :: "UserWithSecrets option"
  device :: DeviceWithSecrets
  server :: "ServerWithSecrets option"

record Team =
  state :: TeamState
  graph :: TeamGraph
  "context" :: LocalUserContext
  seed :: string

text \<open>
  What \<open>Team.ts\<close> imports from modules that are not among the sources is a parameter of
  the model: the device-id helpers, key generation (one outcome of the random choice per
  scope), the lockbox operations, the key and scope selectors, the store of the graph
  library (\<open>dispatch\<close> appends a link or throws, \<open>getState\<close> reduces the graph) and the
  invitation helpers (seed normalisation, a random seed, creation).
\<close>

record Env =
  getDeviceId :: "string \<Rightarrow> string \<Rightarrow> string"
  parseDeviceId :: "string \<Rightarrow> string \<times> string"
  createKeyset :: "KeyScope \<Rightarrow> KeysetWithSecrets"
  getLatestGeneration :: "KeysetWithSecrets list \<Rightarrow> KeysetWithSecrets"
  lockbox_create :: "KeysetWithSecrets \<Rightarrow> Keyset \<Rightarrow> Lockbox"
  lockbox_rotate :: "Lockbox \<Rightarrow> KeysetWithSecrets \<Rightarrow> Keyset option \<Rightarrow> Lockbox"
  select_keys ::
    "TeamState \<Rightarrow> KeysetWithSecrets \<Rightarrow> KeyScope \<Rightarrow> nat option \<Rightarrow> error + KeysetWithSecrets"
  select_visibleScopes :: "TeamState \<Rightarrow> KeyScope \<Rightarrow> KeyScope list"
  select_lockboxesInScope :: "TeamState \<Rightarrow> KeysetWithSecrets \<Rightarrow> Lockbox list"
  store_dispatch ::
    "LocalUserContext \<Rightarrow> TeamGraph \<Rightarrow> TeamAction \<Rightarrow> KeysetWithSecrets \<Rightarrow> error + TeamGraph"
  store_getState :: "TeamGraph \<Rightarrow> TeamState"
  normalize :: "string \<Rightarrow> string"
  randomSeed :: string
  invitations_create ::
    "string \<Rightarrow> UnixTimestamp option \<Rightarrow> nat option \<Rightarrow> string option \<Rightarrow> Invitation"

text \<open>
  The scopes of \<open>constants.ts\<close>. The name of the team scope is the value of the
  enumeration member \<open>KeyType.TEAM\<close>, taken to be its own name.
\<close>

definition TEAM_SCOPE :: KeyScope where
  "TEAM_SCOPE = \<lparr>type = TEAM, name = ''TEAM''\<rparr>"

definition ADMIN_SCOPE :: KeyScope where
  "ADMIN_SCOPE = \<lparr>type = ROLE, name = ADMIN\<rparr>"

text \<open>
  Modelled from the spec: \<open>redactKeys\<close>, \<open>redactDevice\<close> and \<open>scopesMatch\<close> are not among
  the sources. A keyset with secrets holds the public keys of the keyset plus the matching
  secret keys, so redaction keeps the scope, the generation and the public keys; two scopes
  match when type and name agree.
\<close>

definition redactKeys :: "KeysetWithSecrets \<Rightarrow> Keyset" where
  "redactKeys k = \<lparr>type = type k, name = name k, generation = generation k,
     encryption = encryptionPublicKey k, signature = signaturePublicKey k\<rparr>"


definition scopesMatch :: "'a KeyScope_scheme \<Rightarrow> 'b KeyScope_scheme \<Rightarrow> bool" where
  "scopesMatch a b = (type a = type b \<and> name a = name b)"

subsection \<open>Context and read access\<close>


definition Team_userId :: "Team \<Rightarrow> string" where
  "Team_userId t =
     (case user (context t) of
        Some u \<Rightarrow> UserWithSecrets.userId u
      | None \<Rightarrow> DeviceWithSecrets.userId (device (context t)))"

definition has :: "Team \<Rightarrow> string \<Rightarrow> bool" where
  "has t u = select_hasMember (state t) u"

definition memberWasRemoved :: "Team \<Rightarrow> string \<Rightarrow> bool" where
  "memberWasRemoved t u = select_memberWasRemoved (state t) u"

definition hasServer :: "Team \<Rightarrow> string \<Rightarrow> bool" where
  "hasServer t h = select_hasServer (state t) h"

definition serverWasRemoved :: "Team \<Rightarrow> string \<Rightarrow> bool" where
  "serverWasRemoved t h = select_serverWasRemoved (state t) h"

definition hasDevice :: "Team \<Rightarrow> string \<Rightarrow> string \<Rightarrow> bool" where
  "hasDevice t u d = select_hasDevice (state t) u d"

definition deviceWasRemoved :: "Env \<Rightarrow> Team \<Rightarrow> string \<Rightarrow> string \<Rightarrow> bool" where
  "deviceWasRemoved env t u d =
     (let deviceId = getDeviceId env u d
      in select_deviceWasRemoved (getDeviceId env) (state t) deviceId)"

definition membersInRole :: "Team \<Rightarrow> string \<Rightarrow> Member list" where
  "membersInRole t r = select_membersInRole (state t) r"

definition memberIsAdmin :: "Team \<Rightarrow> string \<Rightarrow> bool" where
  "memberIsAdmin t u = select_memberIsAdmin (state t) u"

text \<open>
  \<open>Team.members\<close> has two overloads behind one implementation: without a user id (the
  parameter defaults to \<open>ALL\<close>) it returns the list of members, with one it returns that
  member; the options default to \<open>includeRemoved: true\<close>. \<open>Team.device\<close> defaults to
  \<open>includeRemoved: false\<close>.
\<close>

datatype MembersResult = AllMembers "Member list" | OneMember Member

definition Team_members ::
  "Team \<Rightarrow> string option \<Rightarrow> LookupOptions option \<Rightarrow> error + MembersResult" where
  "Team_members t userIdArg optionsArg =
     (let u = (case userIdArg of None \<Rightarrow> ALL_userId | Some x \<Rightarrow> x);
          options = (case optionsArg of None \<Rightarrow> \<lparr>includeRemoved = True\<rparr> | Some x \<Rightarrow> x)
      in if u = ALL_userId then Inr (AllMembers (members (state t)))
         else (case select_member (state t) u options of
                 Inl e \<Rightarrow> Inl e
               | Inr m \<Rightarrow> Inr (OneMember m)))"

definition Team_device ::
  "Team \<Rightarrow> string \<Rightarrow> string \<Rightarrow> LookupOptions option \<Rightarrow> error + Device" where
  "Team_device t u d optionsArg =
     (let options = (case optionsArg of None \<Rightarrow> \<lparr>includeRemoved = False\<rparr> | Some x \<Rightarrow> x)
      in select_device (state t) u d options)"

subsection \<open>Identity lookup\<close>

datatype LookupIdentityResult =
  VALID_DEVICE | MEMBER_UNKNOWN | MEMBER_REMOVED | DEVICE_UNKNOWN | DEVICE_REMOVED

text \<open>\<open>Team.lookupIdentity\<close>: the assertion first, then the four checks in the source's order.\<close>

definition lookupIdentity :: "Env \<Rightarrow> Team \<Rightarrow> KeyScope \<Rightarrow> error + LookupIdentityResult" where
  "lookupIdentity env t identityClaim =
     (case assert (type identityClaim = DEVICE) [] of
        Inl e \<Rightarrow> Inl e
      | Inr _ \<Rightarrow>
          let deviceId = name identityClaim;
              (u, d) = parseDeviceId env deviceId
          in if memberWasRemoved t u \<or> serverWasRemoved t u then Inr MEMBER_REMOVED
             else if \<not> has t u \<and> \<not> hasServer t u then Inr MEMBER_UNKNOWN
             else if deviceWasRemoved env t u d then Inr DEVICE_REMOVED
             else if \<not> hasDevice t u d \<and> \<not> hasServer t u then Inr DEVICE_UNKNOWN
             else Inr VALID_DEVICE)"

subsection \<open>Invitations: validation\<close>

text \<open>
  Modelled from the spec: the result of a validation is \<open>VALID\<close> or a failure that carries
  a message; \<open>fail\<close> of the invitation module, which is not among the sources, builds the
  failure.
\<close>

datatype ValidationResult = VALID | INVALID string

definition fail :: "string \<Rightarrow> ValidationResult" where
  "fail message = INVALID message"

definition isValid :: "ValidationResult \<Rightarrow> bool" where
  "isValid r = (r = VALID)"

text \<open>
  The two checks of the invitation module that \<open>validateInvitation\<close> calls are not among
  the sources either, and nothing under the sources fixes what they accept; they are
  parameters: \<open>invitationCanBeUsed\<close> decides whether an invitation can be used at a given
  time, \<open>validate\<close> whether a proof matches the invitation.
\<close>

record InvitationChecks =
  invitationCanBeUsed :: "InvitationState \<Rightarrow> UnixTimestamp \<Rightarrow> ValidationResult"
  validate :: "ProofOfInvitation \<Rightarrow> InvitationState \<Rightarrow> ValidationResult"

definition hasInvitation :: "Team \<Rightarrow> Base58 \<Rightarrow> bool" where
  "hasInvitation t i = select_hasInvitation (state t) i"

definition getInvitation :: "Team \<Rightarrow> Base58 \<Rightarrow> error + InvitationState" where
  "getInvitation t i = select_getInvitation (state t) i"

text \<open>\<open>Team.validateInvitation\<close>; the argument \<open>now\<close> is the value of \<open>Date.now()\<close>.\<close>

definition validateInvitation ::
  "InvitationChecks \<Rightarrow> UnixTimestamp \<Rightarrow> Team \<Rightarrow> ProofOfInvitation
     \<Rightarrow> error + ValidationResult" where
  "validateInvitation checks now t p =
     (let i = ProofOfInvitation.id p
      in if \<not> hasInvitation t i then Inr (fail ''This invitation code doesn't match.'')
         else (case getInvitation t i of
                 Inl e \<Rightarrow> Inl e
               | Inr invitation \<Rightarrow>
                   let canBeUsedResult = invitationCanBeUsed checks invitation now
                   in if canBeUsedResult \<noteq> VALID then Inr canBeUsedResult
                      else Inr (validate checks p invitation)))"

subsection \<open>Keys and rotation\<close>

definition Team_keys ::
  "Env \<Rightarrow> Team \<Rightarrow> KeyScope \<Rightarrow> nat option \<Rightarrow> error + KeysetWithSecrets" where
  "Team_keys env t scope gen =
     select_keys env (state t) (DeviceWithSecrets.keys (device (context t))) scope gen"

definition roleKeys :: "Env \<Rightarrow> Team \<Rightarrow> string \<Rightarrow> nat option \<Rightarrow> error + KeysetWithSecrets" where
  "roleKeys env t r gen = Team_keys env t \<lparr>type = ROLE, name = r\<rparr> gen"

definition teamKeys :: "Env \<Rightarrow> Team \<Rightarrow> nat option \<Rightarrow> error + KeysetWithSecrets" where
  "teamKeys env t gen = Team_keys env t TEAM_SCOPE gen"

definition adminKeys :: "Env \<Rightarrow> Team \<Rightarrow> nat option \<Rightarrow> error + KeysetWithSecrets" where
  "adminKeys env t gen = roleKeys env t ADMIN gen"

text \<open>
  \<open>rotateKeys\<close> takes a compromised scope or a keyset that replaces its keys
  (\<open>isKeyset\<close> tells them apart); a keyset is read as its scope where a scope is expected.
\<close>

datatype ScopeOrKeyset = AScope KeyScope | AKeyset KeysetWithSecrets

definition scopeOf :: "ScopeOrKeyset \<Rightarrow> KeyScope" where
  "scopeOf c = (case c of AScope sc \<Rightarrow> sc | AKeyset k \<Rightarrow> \<lparr>type = type k, name = name k\<rparr>)"

definition rotateKeys :: "Env \<Rightarrow> Team \<Rightarrow> ScopeOrKeyset \<Rightarrow> Lockbox list" where
  "rotateKeys env t compromised =
     (let newKeyset = (case compromised of AKeyset k \<Rightarrow> k | AScope sc \<Rightarrow> createKeyset env sc);
          visibleScopes = select_visibleScopes env (state t) (scopeOf compromised);
          otherNewKeysets = map (createKeyset env) visibleScopes;
          newKeysets = newKeyset # otherNewKeysets;
          newLockboxes = concat (map (\<lambda>newKeyset.
            let oldLockboxes = select_lockboxesInScope env (state t) newKeyset
            in map (\<lambda>oldLockbox.
                 let updatedKeyset = find (\<lambda>k. scopesMatch k (recipient oldLockbox)) newKeysets
                 in lockbox_rotate env oldLockbox newKeyset (map_option redactKeys updatedKeyset))
               oldLockboxes) newKeysets)
      in newLockboxes)"

subsection \<open>Dispatch\<close>

text \<open>
  A method of the team that changes it returns the outcome (an error thrown or a value)
  together with the team afterwards. \<open>dispatch\<close> hands the action to the store, reads the
  new state and emits \<open>updated\<close>; the listener that the constructor registers then runs
  \<open>checkForPendingKeyRotations\<close>, which dispatches again for every pending rotation.
  Whether that recursion ends depends on the store's reducer, so the three functions
  carry fuel: \<open>None\<close> means the fuel ran out before the call returned.
\<close>

type_synonym 'a outcome = "((error + 'a) \<times> Team) option"

fun dispatch :: "nat \<Rightarrow> Env \<Rightarrow> TeamAction \<Rightarrow> KeysetWithSecrets option \<Rightarrow> Team \<Rightarrow> unit outcome"
  and checkForPendingKeyRotations :: "nat \<Rightarrow> Env \<Rightarrow> Team \<Rightarrow> unit outcome"
  and rotatePending :: "nat \<Rightarrow> Env \<Rightarrow> string list \<Rightarrow> Team \<Rightarrow> unit outcome"
where
  "dispatch 0 env a teamKeysArg t = None"
| "dispatch (Suc n) env a teamKeysArg t =
     (case (case teamKeysArg of Some k \<Rightarrow> Inr k | None \<Rightarrow> teamKeys env t None) of
        Inl e \<Rightarrow> Some (Inl e, t)
      | Inr k \<Rightarrow>
          (case store_dispatch env (context t) (graph t) a k of
             Inl e \<Rightarrow> Some (Inl e, t)
           | Inr g \<Rightarrow>
               checkForPendingKeyRotations n env (t\<lparr>graph := g, state := store_getState env g\<rparr>)))"
| "checkForPendingKeyRotations n env t =
     (if \<not> memberIsAdmin t (Team_userId t) then Some (Inr (), t)
      else rotatePending n env (pendingKeyRotations (state t)) t)"
| "rotatePending n env [] t = Some (Inr (), t)"
| "rotatePending n env (u # us) t =
     (let lockboxes = rotateKeys env t (AScope \<lparr>type = USER, name = Team_userId t\<rparr>)
      in case dispatch n env (ROTATE_KEYS u lockboxes) None t of
           None \<Rightarrow> None
         | Some (Inl e, t') \<Rightarrow> Some (Inl e, t')
         | Some (Inr _, t') \<Rightarrow> rotatePending n env us t')"

subsection \<open>Members and roles\<close>

definition remove :: "nat \<Rightarrow> Env \<Rightarrow> string \<Rightarrow> Team \<Rightarrow> unit outcome" where
  "remove n env u t =
     (let lockboxes = rotateKeys env t (AScope \<lparr>type = USER, name = u\<rparr>)
      in dispatch n env (REMOVE_MEMBER u lockboxes) None t)"

definition removeRole :: "nat \<Rightarrow> Env \<Rightarrow> string \<Rightarrow> Team \<Rightarrow> unit outcome" where
  "removeRole n env r t =
     (case assert (r \<noteq> ADMIN) ''Cannot remove admin role'' of
        Inl e \<Rightarrow> Some (Inl e, t)
      | Inr _ \<Rightarrow> dispatch n env (REMOVE_ROLE r) None t)"

definition removeMemberRole :: "nat \<Rightarrow> Env \<Rightarrow> string \<Rightarrow> string \<Rightarrow> Team \<Rightarrow> unit outcome" where
  "removeMemberRole n env u r t =
     (case (if r = ADMIN
            then (let adminCount = length (membersInRole t ADMIN)
                  in assert (adminCount > 1) ''Can't remove the last admin'')
            else Inr ()) of
        Inl e \<Rightarrow> Some (Inl e, t)
      | Inr _ \<Rightarrow>
          let lockboxes = rotateKeys env t (AScope \<lparr>type = ROLE, name = r\<rparr>)
          in dispatch n env (REMOVE_MEMBER_ROLE u r lockboxes) None t)"

subsection \<open>Invitations and joining\<close>

record InviteResult =
  id :: Base58
  seed :: string

text \<open>
  \<open>inviteMember\<close>: the seed defaults to a random one; expiration and number of uses are
  optional. It returns the invitation's id and the normalised seed.
\<close>

definition inviteMember ::
  "nat \<Rightarrow> Env \<Rightarrow> string option \<Rightarrow> UnixTimestamp option \<Rightarrow> nat option \<Rightarrow> Team
     \<Rightarrow> InviteResult outcome" where
  "inviteMember n env seedArg expirationArg maxUsesArg t =
     (let seed0 = (case seedArg of None \<Rightarrow> randomSeed env | Some x \<Rightarrow> x);
          seed1 = normalize env seed0;
          invitation = invitations_create env seed1 expirationArg maxUsesArg None;
          i = Invitation.id invitation
      in case dispatch n env (INVITE_MEMBER invitation) None t of
           None \<Rightarrow> None
         | Some (Inl e, t') \<Rightarrow> Some (Inl e, t')
         | Some (Inr _, t') \<Rightarrow> Some (Inr \<lparr>InviteResult.id = i, seed = seed1\<rparr>, t'))"



section \<open>Seniority\<close>

text \<open>
  Modelled from the spec: \<open>isPredecessor\<close> belongs to the graph library, which is not
  among the sources; the spec describes it as standard reachability in the graph of
  \<open>prev\<close> links. \<open>predecessorsWithin g n h\<close> lists the hashes reached from \<open>h\<close> by one
  to \<open>n\<close> steps along \<open>prev\<close>; a path in an acyclic graph is shorter than the number of
  links, which bounds the search.
\<close>

definition getLink :: "TeamGraph \<Rightarrow> Hash \<Rightarrow> TeamLink option" where
  "getLink g h = map_of (links g) h"

definition parents :: "TeamGraph \<Rightarrow> Hash \<Rightarrow> Hash list" where
  "parents g h = (case getLink g h of None \<Rightarrow> [] | Some l \<Rightarrow> prev (body l))"

fun predecessorsWithin :: "TeamGraph \<Rightarrow> nat \<Rightarrow> Hash \<Rightarrow> Hash list" where
  "predecessorsWithin g 0 h = []"
| "predecessorsWithin g (Suc n) h =
     parents g h @ concat (map (predecessorsWithin g n) (parents g h))"

definition getPredecessorHashes :: "TeamGraph \<Rightarrow> Hash \<Rightarrow> Hash list" where
  "getPredecessorHashes g h = predecessorsWithin g (length (links g)) h"

definition isPredecessor :: "TeamGraph \<Rightarrow> TeamLink \<Rightarrow> TeamLink \<Rightarrow> bool" where
  "isPredecessor g a b = (hash a \<in> set (getPredecessorHashes g (hash b)))"

text \<open>
  \<open>bySeniority.ts\<close>. \<open>isFounder\<close> reads the author of the root link (reading a root link
  that is missing throws); \<open>linkThatAddedMember\<close> is the first link, in the order of the
  \<open>links\<close> object, that added the member, and its assertion fails when there is none. The
  comparator returns \<open>-1\<close> when \<open>a\<close> sorts first and \<open>1\<close> otherwise.
\<close>

definition isFounder :: "TeamGraph \<Rightarrow> string \<Rightarrow> error + bool" where
  "isFounder chain u =
     (case getLink chain (root chain) of
        None \<Rightarrow> Inl (TypeError ''rootLink'')
      | Some rootLink \<Rightarrow> Inr (TeamLinkBody.userId (body rootLink) = u))"

definition addedMember :: "string \<Rightarrow> TeamLink \<Rightarrow> bool" where
  "addedMember u link =
     (case action (body link) of
        ADD_MEMBER member _ _ \<Rightarrow> Member.userId member = u
      | _ \<Rightarrow> False)"

definition linkThatAddedMember :: "TeamGraph \<Rightarrow> string \<Rightarrow> error + TeamLink" where
  "linkThatAddedMember chain u =
     (case find (addedMember u) (map snd (links chain)) of
        None \<Rightarrow> Inl (AssertionError (''Could not find link that added member '' @ u))
      | Some result \<Rightarrow> Inr result)"

definition bySeniority :: "TeamGraph \<Rightarrow> string \<Rightarrow> string \<Rightarrow> error + int" where
  "bySeniority chain a b =
     (case isFounder chain a of
        Inl e \<Rightarrow> Inl e
      | Inr True \<Rightarrow> Inr (- 1)
      | Inr False \<Rightarrow>
          (case isFounder chain b of
             Inl e \<Rightarrow> Inl e
           | Inr True \<Rightarrow> Inr 1
           | Inr False \<Rightarrow>
               (case linkThatAddedMember chain a of
                  Inl e \<Rightarrow> Inl e
                | Inr addedA \<Rightarrow>
                    (case linkThatAddedMember chain b of
                       Inl e \<Rightarrow> Inl e
                     | Inr addedB \<Rightarrow>
                         if isPredecessor chain addedA addedB then Inr (- 1) else Inr 1))))"

section \<open>Merging graphs\<close>

text \<open>
  Modelled from the spec: \<open>merge\<close> belongs to the graph library, which is not among the
  sources (\<open>Team.merge\<close> hands the other graph to the store's \<open>merge\<close>). The spec defines
  it: the links are the union of the two link maps, and the head is the set of hashes
  with no child across the union. A hash has a child when some link of the map lists it
  in \<open>prev\<close>.
\<close>

definition hasChild :: "(Hash \<rightharpoonup> TeamLink) \<Rightarrow> Hash \<Rightarrow> bool" where
  "hasChild ls h = (\<exists>k \<in> dom ls. h \<in> set (prev (body (the (ls k)))))"

definition leaves :: "(Hash \<rightharpoonup> TeamLink) \<Rightarrow> Hash set" where
  "leaves ls = {h \<in> dom ls. \<not> hasChild ls h}"

definition merge :: "Graph \<Rightarrow> Graph \<Rightarrow> Graph" where
  "merge a b =
     (let ls = Graph.links a ++ Graph.links b
      in \<lparr>Graph.root = Graph.root a, head = leaves ls, links = ls\<rparr>)"

text \<open>
  The invariant of a graph that idempotence needs (the head is the set of hashes with no
  child), and what content addressing gives for two graphs of one team: the same root, and
  the same link under every hash that both hold.
\<close>

definition headIsLeaves :: "Graph \<Rightarrow> bool" where
  "headIsLeaves g = (Graph.head g = leaves (Graph.links g))"

definition sameTeam :: "Graph \<Rightarrow> Graph \<Rightarrow> bool" where
  "sameTeam a b =
     (Graph.root a = Graph.root b \<and>
      (\<forall>h \<in> dom (Graph.links a) \<inter> dom (Graph.links b). Graph.links a h = Graph.links b h))"

section \<open>Example teams\<close>

text \<open>
  Concrete values at which the theorems below are instantiated. The example
  collaborators are small stand-ins for the modules that are not among the sources. Keys
  are named after their scope, and a device id is \<open>userId::deviceName\<close>. A lockbox
  gives its contents to whoever holds the keys of its recipient's scope: the keys visible
  from a keyset are the contents of the lockboxes made for it, and the contents of the
  lockboxes made for those (from a device to its user, from the user to the team and the
  roles); \<open>keys\<close> finds the latest keys of a scope among them and fails when there are
  none. The lockboxes in the scope of a keyset are those that hold keys of that scope, and
  rotating a lockbox puts the next generation of the keys into it. The store keeps a
  linear history: \<open>dispatch\<close> appends a link whose predecessor is the head, and accepts it
  only from an admin of the team (the store of the library also accepts some actions from
  other members; the examples dispatch none of them); \<open>getState\<close> folds \<open>exampleReducer\<close>
  over the links. An invitation created without expiration or number of uses records 0
  for them.
\<close>

definition exampleKeys :: "KeyType \<Rightarrow> string \<Rightarrow> Keyset" where
  "exampleKeys ty nm = \<lparr>type = ty, name = nm, generation = 0,
     encryption = nm @ ''-enc'', signature = nm @ ''-sig''\<rparr>"

definition exampleSecrets :: "KeyType \<Rightarrow> string \<Rightarrow> KeysetWithSecrets" where
  "exampleSecrets ty nm = \<lparr>type = ty, name = nm, generation = 0,
     encryptionPublicKey = nm @ ''-enc'', encryptionSecretKey = nm @ ''-enc-secret'',
     signaturePublicKey = nm @ ''-sig'', signatureSecretKey = nm @ ''-sig-secret'',
     secretKey = nm @ ''-secret''\<rparr>"

definition exampleDevice :: "string \<Rightarrow> string \<Rightarrow> Device" where
  "exampleDevice u d = \<lparr>Device.userId = u, deviceName = d,
     keys = exampleKeys DEVICE (u @ ''::'' @ d)\<rparr>"

definition exampleMember :: "string \<Rightarrow> string list \<Rightarrow> Device list \<Rightarrow> Member" where
  "exampleMember u rs ds = \<lparr>Member.userId = u, userName = u, keys = exampleKeys USER u,
     roles = rs, devices = ds\<rparr>"

fun exampleReducer :: "TeamState \<Rightarrow> TeamAction \<Rightarrow> TeamState" where
  "exampleReducer s (ROOT nm m d lbs) =
     s\<lparr>teamName := nm, members := [m\<lparr>Member.roles := [ADMIN], devices := [d]\<rparr>], lockboxes := lbs\<rparr>"
| "exampleReducer s (ADD_MEMBER m rs lbs) =
     s\<lparr>members := members s @ [m\<lparr>Member.roles := rs\<rparr>], lockboxes := lockboxes s @ lbs\<rparr>"
| "exampleReducer s (REMOVE_MEMBER_ROLE u r lbs) =
     s\<lparr>members := map (\<lambda>m. if Member.userId m = u
                              then m\<lparr>Member.roles := filter (\<lambda>x. x \<noteq> r) (Member.roles m)\<rparr> else m)
                       (members s),
       lockboxes := lockboxes s @ lbs\<rparr>"
| "exampleReducer s (INVITE_MEMBER i) =
     s\<lparr>invitations := (invitations s)(Invitation.id i \<mapsto>
        \<lparr>Invitation.id = Invitation.id i, publicKey = publicKey i, expiration = expiration i,
         maxUses = maxUses i, userId = Invitation.userId i, uses = 0, revoked = False\<rparr>)\<rparr>"
| "exampleReducer s _ = s"

definition exampleHash :: "nat \<Rightarrow> Hash" where
  "exampleHash n = replicate (Suc n) (CHR ''#'')"

definition exampleLockbox :: "Keyset \<Rightarrow> Keyset \<Rightarrow> Lockbox" where
  "exampleLockbox c r =
     \<lparr>encryptionKey = ''ephemeral'', recipient = r, contents = c, encryptedPayload = ''sealed''\<rparr>"

definition exampleOpen :: "Lockbox list \<Rightarrow> 'a KeyScope_scheme list \<Rightarrow> Keyset list" where
  "exampleOpen lbs ks = map contents (filter (\<lambda>l. list_ex (scopesMatch (recipient l)) ks) lbs)"

definition exampleVisibleKeys :: "Lockbox list \<Rightarrow> 'a KeyScope_scheme \<Rightarrow> Keyset list" where
  "exampleVisibleKeys lbs k = (let direct = exampleOpen lbs [k] in direct @ exampleOpen lbs direct)"

definition exampleSelectKeys ::
  "TeamState \<Rightarrow> KeysetWithSecrets \<Rightarrow> KeyScope \<Rightarrow> nat option \<Rightarrow> error + KeysetWithSecrets" where
  "exampleSelectKeys s k sc gen =
     (case find (\<lambda>c. scopesMatch c sc \<and> (case gen of None \<Rightarrow> True | Some g \<Rightarrow> generation c = g))
             (rev (exampleVisibleKeys (lockboxes s) k)) of
        None \<Rightarrow> Inl (NotFound ''Couldn't find keys'')
      | Some c \<Rightarrow> Inr ((exampleSecrets (type sc) (name sc))\<lparr>generation := generation c\<rparr>))"

definition exampleAuthor :: "LocalUserContext \<Rightarrow> string" where
  "exampleAuthor ctx =
     (case user ctx of Some u \<Rightarrow> UserWithSecrets.userId u
      | None \<Rightarrow> DeviceWithSecrets.userId (device ctx))"

definition exampleState :: "TeamGraph \<Rightarrow> TeamState" where
  "exampleState g = foldl exampleReducer initialState (map (\<lambda>e. action (body (snd e))) (links g))"

definition exampleDispatch ::
  "LocalUserContext \<Rightarrow> TeamGraph \<Rightarrow> TeamAction \<Rightarrow> KeysetWithSecrets \<Rightarrow> error + TeamGraph" where
  "exampleDispatch ctx g a k =
     (let h = exampleHash (length (links g));
          author = exampleAuthor ctx
      in if \<not> select_memberIsAdmin (exampleState g) author
         then Inl (ValidationError (author @ '' is not an admin''))
         else Inr (g\<lparr>head := [h],
                     links := links g @ [(h, \<lparr>hash = h,
                        body = \<lparr>action = a, userId = author, prev = TeamGraph.head g\<rparr>\<rparr>)]\<rparr>))"

definition exampleEnv :: Env where
  "exampleEnv = \<lparr>
     getDeviceId = (\<lambda>u d. u @ ''::'' @ d),
     parseDeviceId = (\<lambda>x. (takeWhile (\<lambda>c. c \<noteq> CHR '':'') x,
                            drop 2 (dropWhile (\<lambda>c. c \<noteq> CHR '':'') x))),
     createKeyset = (\<lambda>sc. exampleSecrets (type sc) (name sc)),
     getLatestGeneration = (\<lambda>ring. case ring of [] \<Rightarrow> exampleSecrets TEAM ''TEAM'' | k # ks \<Rightarrow> last (k # ks)),
     lockbox_create = (\<lambda>k r. exampleLockbox (redactKeys k) r),
     lockbox_rotate = (\<lambda>old k r.
        exampleLockbox ((redactKeys k)\<lparr>generation := Suc (generation (contents old))\<rparr>)
          (case r of None \<Rightarrow> recipient old | Some x \<Rightarrow> x)),
     select_keys = exampleSelectKeys,
     select_visibleScopes = (\<lambda>s sc.
        remdups (map (\<lambda>c. \<lparr>type = type c, name = name c\<rparr>) (exampleVisibleKeys (lockboxes s) sc))),
     select_lockboxesInScope = (\<lambda>s k. filter (\<lambda>l. scopesMatch (contents l) k) (lockboxes s)),
     store_dispatch = exampleDispatch,
     store_getState = exampleState,
     normalize = filter (\<lambda>c. c \<noteq> CHR '' ''),
     randomSeed = ''random'',
     invitations_create = (\<lambda>sd ex mx u.
        \<lparr>Invitation.id = ''invitation-'' @ sd, publicKey = sd @ ''-sig'',
         expiration = (case ex of None \<Rightarrow> 0 | Some x \<Rightarrow> x),
         maxUses = (case mx of None \<Rightarrow> 0 | Some x \<Rightarrow> x), userId = u\<rparr>)\<rparr>"

definition exampleContext :: "string \<Rightarrow> string \<Rightarrow> LocalUserContext" where
  "exampleContext u d = \<lparr>
     user = Some \<lparr>UserWithSecrets.userId = u, userName = u, keys = exampleSecrets USER u\<rparr>,
     device = \<lparr>DeviceWithSecrets.userId = u, deviceName = d,
               keys = exampleSecrets DEVICE (u @ ''::'' @ d)\<rparr>,
     server = None\<rparr>"

text \<open>
  A server context: the constructor casts the server to a user and a device named after
  its host.
\<close>

definition exampleServerContext :: "string \<Rightarrow> LocalUserContext" where
  "exampleServerContext h = \<lparr>
     user = Some \<lparr>UserWithSecrets.userId = h, userName = h, keys = exampleSecrets SERVER h\<rparr>,
     device = \<lparr>DeviceWithSecrets.userId = h, deviceName = h, keys = exampleSecrets SERVER h\<rparr>,
     server = Some \<lparr>host = h, keys = exampleSecrets SERVER h\<rparr>\<rparr>"

definition exampleLink :: "nat \<Rightarrow> string \<Rightarrow> Hash list \<Rightarrow> TeamAction \<Rightarrow> Hash \<times> TeamLink" where
  "exampleLink n author ps a =
     (exampleHash n, \<lparr>hash = exampleHash n, body = \<lparr>action = a, userId = author, prev = ps\<rparr>\<rparr>)"

text \<open>
  The root link as the constructor of \<open>Team\<close> builds it: it holds the lockboxes with the
  team keys and the admin keys for the founder, and with the founder's keys for her device.
\<close>

definition exampleRootLockboxes :: "Lockbox list" where
  "exampleRootLockboxes =
     [exampleLockbox (exampleKeys TEAM ''TEAM'') (exampleKeys USER ''alice''),
      exampleLockbox (exampleKeys ROLE ADMIN) (exampleKeys USER ''alice''),
      exampleLockbox (exampleKeys USER ''alice'') (exampleKeys DEVICE ''alice::laptop'')]"

definition exampleRoot :: "Hash \<times> TeamLink" where
  "exampleRoot = exampleLink 0 ''alice'' []
     (ROOT ''team'' (exampleMember ''alice'' [] []) (exampleDevice ''alice'' ''laptop'')
        exampleRootLockboxes)"

text \<open>Alice founds the team; she is its only admin.\<close>

definition aliceGraph :: TeamGraph where
  "aliceGraph = \<lparr>root = exampleHash 0, head = [exampleHash 0], links = [exampleRoot]\<rparr>"

definition teamOf :: "TeamGraph \<Rightarrow> LocalUserContext \<Rightarrow> Team" where
  "teamOf g ctx = \<lparr>state = store_getState exampleEnv g, graph = g, context = ctx, seed = ''seed''\<rparr>"

definition aliceTeam :: Team where
  "aliceTeam = teamOf aliceGraph (exampleContext ''alice'' ''laptop'')"

text \<open>
  Alice founds the team and adds Bob as an admin, with the lockboxes that \<open>add\<close> makes for
  him: the admin keys and the team keys.
\<close>

definition bobLockboxes :: "Lockbox list" where
  "bobLockboxes =
     [exampleLockbox (exampleKeys ROLE ADMIN) (exampleKeys USER ''bob''),
      exampleLockbox (exampleKeys TEAM ''TEAM'') (exampleKeys USER ''bob'')]"

definition aliceBobGraph :: TeamGraph where
  "aliceBobGraph = \<lparr>root = exampleHash 0, head = [exampleHash 1],
     links = [exampleRoot,
       exampleLink 1 ''alice'' [exampleHash 0]
         (ADD_MEMBER (exampleMember ''bob'' [] []) [ADMIN] bobLockboxes)]\<rparr>"

text \<open>
  The lockboxes that rotating the admin keys of that team makes: the next generation of
  the admin keys for each holder of the old ones.
\<close>

definition rotatedAdminLockboxes :: "Lockbox list" where
  "rotatedAdminLockboxes =
     [exampleLockbox ((exampleKeys ROLE ADMIN)\<lparr>generation := 1\<rparr>) (exampleKeys USER ''alice''),
      exampleLockbox ((exampleKeys ROLE ADMIN)\<lparr>generation := 1\<rparr>) (exampleKeys USER ''bob'')]"

definition aliceBobTeam :: Team where
  "aliceBobTeam = teamOf aliceBobGraph (exampleContext ''alice'' ''laptop'')"

text \<open>
  Alice's team as a server holds it. The server has not been added to the team: no lockbox
  is made for its keys.
\<close>

definition serverTeam :: Team where
  "serverTeam = teamOf aliceGraph (exampleServerContext ''example.com'')"

text \<open>Alice's team after Bob, who had a phone, was removed.\<close>

definition bobRemovedTeam :: Team where
  "bobRemovedTeam = aliceTeam\<lparr>state := (state aliceTeam)\<lparr>
     removedMembers := [exampleMember ''bob'' [] []],
     removedDevices := [exampleDevice ''bob'' ''phone'']\<rparr>\<rparr>"

text \<open>Alice's team after a member whose user id is the string \<open>ALL\<close> was removed.\<close>

definition allRemovedTeam :: Team where
  "allRemovedTeam = aliceTeam\<lparr>state := (state aliceTeam)\<lparr>
     removedMembers := [exampleMember ''ALL'' [] []]\<rparr>\<rparr>"

text \<open>
  Alice founds the team and adds Dwight as an admin; then, concurrently, Alice adds Bob and
  Dwight adds Charlie: the two ADD_MEMBER links have the same predecessor and neither is
  a predecessor of the other.
\<close>

definition addDwightLink :: "Hash \<times> TeamLink" where
  "addDwightLink = exampleLink 1 ''alice'' [exampleHash 0]
     (ADD_MEMBER (exampleMember ''dwight'' [] []) [ADMIN] [])"

definition addBobLink :: "Hash \<times> TeamLink" where
  "addBobLink = exampleLink 2 ''alice'' [exampleHash 1]
     (ADD_MEMBER (exampleMember ''bob'' [] []) [] [])"

definition addCharlieLink :: "Hash \<times> TeamLink" where
  "addCharlieLink = exampleLink 3 ''dwight'' [exampleHash 1]
     (ADD_MEMBER (exampleMember ''charlie'' [] []) [] [])"

definition concurrentAddsGraph :: TeamGraph where
  "concurrentAddsGraph = \<lparr>root = exampleHash 0, head = [exampleHash 2, exampleHash 3],
     links = [exampleRoot, addDwightLink, addBobLink, addCharlieLink]\<rparr>"

text \<open>
  Two replicas of the example team after the concurrent additions: one holds the link that
  added Bob, the other the link that added Charlie.
\<close>

definition graphOf :: "(Hash \<times> TeamLink) list \<Rightarrow> Graph" where
  "graphOf entries = \<lparr>Graph.root = exampleHash 0, head = leaves (map_of entries),
     links = map_of entries\<rparr>"

definition bobReplica :: Graph where
  "bobReplica = graphOf [exampleRoot, addDwightLink, addBobLink]"

definition charlieReplica :: Graph where
  "charlieReplica = graphOf [exampleRoot, addDwightLink, addCharlieLink]"

section \<open>Verified properties\<close>

lemmas example_defs = exampleEnv_def exampleState_def teamOf_def aliceTeam_def aliceGraph_def
  exampleRoot_def exampleLink_def exampleHash_def exampleMember_def exampleDevice_def
  exampleContext_def initialState_def aliceBobTeam_def aliceBobGraph_def serverTeam_def
  exampleServerContext_def exampleKeys_def exampleSecrets_def

lemma aliceTeam_state:
  "state aliceTeam = \<lparr>TeamState.head = [], teamName = ''team'',
     members = [exampleMember ''alice'' [ADMIN] [exampleDevice ''alice'' ''laptop'']],
     servers = [], TeamState.roles = [], lockboxes = exampleRootLockboxes,
     invitations = Map.empty, removedMembers = [], removedDevices = [], removedServers = [],
     pendingKeyRotations = []\<rparr>"
  by (simp add: example_defs)

subsection \<open>Seniority\<close>

text \<open>
  What the comparator does by cases: the founder sorts first; otherwise the member whose
  ADD_MEMBER link is a predecessor of the other's sorts first; and when neither link is
  a predecessor of the other, the result is \<open>1\<close> in both argument orders.
\<close>

lemma bySeniority_founder_first:
  "isFounder chain a = Inr True \<Longrightarrow> bySeniority chain a b = Inr (- 1)"
  by (simp add: bySeniority_def)

lemma bySeniority_founder_second:
  "isFounder chain a = Inr False \<Longrightarrow> isFounder chain b = Inr True \<Longrightarrow>
   bySeniority chain a b = Inr 1"
  by (simp add: bySeniority_def)

lemma bySeniority_predecessor_first:
  "isFounder chain a = Inr False \<Longrightarrow> isFounder chain b = Inr False \<Longrightarrow>
   linkThatAddedMember chain a = Inr addedA \<Longrightarrow> linkThatAddedMember chain b = Inr addedB \<Longrightarrow>
   isPredecessor chain addedA addedB \<Longrightarrow> bySeniority chain a b = Inr (- 1)"
  by (simp add: bySeniority_def)

lemma bySeniority_concurrent:
  "isFounder chain a = Inr False \<Longrightarrow> isFounder chain b = Inr False \<Longrightarrow>
   linkThatAddedMember chain a = Inr addedA \<Longrightarrow> linkThatAddedMember chain b = Inr addedB \<Longrightarrow>
   \<not> isPredecessor chain addedA addedB \<Longrightarrow> \<not> isPredecessor chain addedB addedA \<Longrightarrow>
   bySeniority chain a b = Inr 1 \<and> bySeniority chain b a = Inr 1"
  by (simp add: bySeniority_def)

lemmas graph_defs = concurrentAddsGraph_def addDwightLink_def addBobLink_def addCharlieLink_def
  exampleRoot_def exampleLink_def exampleHash_def exampleMember_def getLink_def

text \<open>
  Claim C1 says that the comparator is antisymmetric and that concurrent additions are
  ordered by the hash of the ADD_MEMBER link. On the example graph Bob and Charlie were
  added concurrently: the links that added them are found, neither is a predecessor of
  the other, and the comparator answers \<open>1\<close> for (Bob, Charlie) and for (Charlie, Bob).
\<close>

theorem bySeniority_concurrent_adds:
  "linkThatAddedMember concurrentAddsGraph ''bob'' = Inr (snd addBobLink) \<and>
   linkThatAddedMember concurrentAddsGraph ''charlie'' = Inr (snd addCharlieLink) \<and>
   \<not> isPredecessor concurrentAddsGraph (snd addBobLink) (snd addCharlieLink) \<and>
   \<not> isPredecessor concurrentAddsGraph (snd addCharlieLink) (snd addBobLink) \<and>
   bySeniority concurrentAddsGraph ''bob'' ''charlie'' = Inr 1 \<and>
   bySeniority concurrentAddsGraph ''charlie'' ''bob'' = Inr 1"
  by (simp add: bySeniority_def isFounder_def isPredecessor_def getPredecessorHashes_def
      parents_def linkThatAddedMember_def addedMember_def graph_defs eval_nat_numeral)

text \<open>On the same graph the founder and the earlier addition sort first.\<close>

lemma bySeniority_ordered_adds:
  "bySeniority concurrentAddsGraph ''alice'' ''bob'' = Inr (- 1) \<and>
   bySeniority concurrentAddsGraph ''bob'' ''alice'' = Inr 1 \<and>
   bySeniority concurrentAddsGraph ''dwight'' ''bob'' = Inr (- 1) \<and>
   bySeniority concurrentAddsGraph ''bob'' ''dwight'' = Inr 1"
  by (simp add: bySeniority_def isFounder_def isPredecessor_def getPredecessorHashes_def
      parents_def linkThatAddedMember_def addedMember_def graph_defs eval_nat_numeral)

subsection \<open>Merging graphs\<close>

lemma merge_links: "Graph.links (merge a b) = Graph.links a ++ Graph.links b"
  by (simp add: merge_def Let_def)

lemma sameTeam_links_commute:
  assumes "sameTeam a b"
  shows "Graph.links a ++ Graph.links b = Graph.links b ++ Graph.links a"
proof (rule ext)
  fix h
  show "(Graph.links a ++ Graph.links b) h = (Graph.links b ++ Graph.links a) h"
  proof (cases "Graph.links a h")
    case None
    then show ?thesis by (simp add: map_add_def split: option.split)
  next
    case (Some l)
    show ?thesis
    proof (cases "Graph.links b h")
      case None
      with Some show ?thesis by (simp add: map_add_def)
    next
      case (Some l')
      with \<open>Graph.links a h = Some l\<close> have "h \<in> dom (Graph.links a) \<inter> dom (Graph.links b)"
        by blast
      with assms have "Graph.links a h = Graph.links b h"
        unfolding sameTeam_def by blast
      with Some show ?thesis by (simp add: map_add_def)
    qed
  qed
qed

lemma hasChild_iff:
  "hasChild ls h \<longleftrightarrow> (\<exists>k l. ls k = Some l \<and> h \<in> set (prev (body l)))"
  unfolding hasChild_def by (metis domI domIff option.sel option.exhaust)

text \<open>
  Claim C3. Merge obeys the laws of a state-based replicated data type: merging a graph
  whose head is its set of childless hashes with itself gives the graph back; for two
  graphs of one team (same root, same link under every shared hash) the merge is the
  same in either order, and so is the state any reducer computes from it; merge is
  associative; the merged links are the union of the two link maps, each hash held once
  with a link of one of the arguments; and the merged head is exactly the set of hashes of
  the union that no link of the union lists in \<open>prev\<close>.
\<close>

theorem merge_crdt_laws:
  "(headIsLeaves g \<longrightarrow> merge g g = g) \<and>
   (sameTeam a b \<longrightarrow> merge a b = merge b a \<and> reduce (merge a b) = reduce (merge b a)) \<and>
   merge (merge a b) c = merge a (merge b c) \<and>
   dom (Graph.links (merge a b)) = dom (Graph.links a) \<union> dom (Graph.links b) \<and>
   (\<forall>h l. Graph.links (merge a b) h = Some l \<longrightarrow> Graph.links a h = Some l \<or> Graph.links b h = Some l) \<and>
   Graph.head (merge a b) =
     {h \<in> dom (Graph.links a) \<union> dom (Graph.links b).
        \<not> (\<exists>k l. (Graph.links a ++ Graph.links b) k = Some l \<and> h \<in> set (prev (body l)))}"
proof (intro conjI impI)
  assume "headIsLeaves g"
  then have "leaves (Graph.links g) = Graph.head g"
    by (simp add: headIsLeaves_def)
  moreover have "Graph.links g ++ Graph.links g = Graph.links g"
    by (rule ext) (simp add: map_add_def split: option.split)
  ultimately show "merge g g = g"
    by (simp add: merge_def Let_def)
next
  assume st: "sameTeam a b"
  then have "Graph.root a = Graph.root b"
    by (simp add: sameTeam_def)
  with sameTeam_links_commute [OF st] have "merge a b = merge b a"
    by (simp add: merge_def Let_def)
  then show "merge a b = merge b a" "reduce (merge a b) = reduce (merge b a)"
    by simp_all
next
  show "merge (merge a b) c = merge a (merge b c)"
    by (simp add: merge_def Let_def)
next
  show "dom (Graph.links (merge a b)) = dom (Graph.links a) \<union> dom (Graph.links b)"
    by (auto simp: merge_links)
next
  show "\<forall>h l. Graph.links (merge a b) h = Some l \<longrightarrow> Graph.links a h = Some l \<or> Graph.links b h = Some l"
    by (auto simp: merge_links)
next
  show "Graph.head (merge a b) =
     {h \<in> dom (Graph.links a) \<union> dom (Graph.links b).
        \<not> (\<exists>k l. (Graph.links a ++ Graph.links b) k = Some l \<and> h \<in> set (prev (body l)))}"
    by (simp add: merge_def Let_def leaves_def hasChild_iff Un_commute)
qed


lemmas replica_defs = bobReplica_def charlieReplica_def graphOf_def exampleRoot_def
  addDwightLink_def addBobLink_def addCharlieLink_def exampleLink_def exampleHash_def

lemma replicas_sameTeam: "sameTeam bobReplica charlieReplica"
  by (simp add: sameTeam_def replica_defs eval_nat_numeral)

lemma replicas_merged_head:
  "leaves (Graph.links bobReplica ++ Graph.links charlieReplica) = {exampleHash 2, exampleHash 3}"
  by (auto simp: leaves_def hasChild_def replica_defs eval_nat_numeral split: if_splits)

theorem merge_crdt_laws_witness:
  "headIsLeaves bobReplica \<and> merge bobReplica bobReplica = bobReplica \<and>
   sameTeam bobReplica charlieReplica \<and>
   merge bobReplica charlieReplica = merge charlieReplica bobReplica \<and>
   Graph.head (merge bobReplica charlieReplica) = {exampleHash 2, exampleHash 3} \<and>
   dom (Graph.links (merge bobReplica charlieReplica)) =
     {exampleHash 0, exampleHash 1, exampleHash 2, exampleHash 3}"
proof -
  have h: "headIsLeaves bobReplica"
    by (simp add: headIsLeaves_def bobReplica_def graphOf_def)
  have d: "dom (Graph.links bobReplica) \<union> dom (Graph.links charlieReplica) =
      {exampleHash 0, exampleHash 1, exampleHash 2, exampleHash 3}"
    by (auto simp: replica_defs eval_nat_numeral)
  have hd: "Graph.head (merge bobReplica charlieReplica) = {exampleHash 2, exampleHash 3}"
    by (simp add: merge_def Let_def replicas_merged_head)
  show ?thesis
    using merge_crdt_laws [where g = bobReplica and a = bobReplica and b = charlieReplica
        and c = bobReplica and reduce = "\<lambda>x. x"]
      h replicas_sameTeam d hd
    by metis
qed

subsection \<open>Identity lookup\<close>

text \<open>
  Claim C5. For an identity claim of type DEVICE whose name parses to the user id \<open>u\<close>
  and the device name \<open>d\<close>, \<open>lookupIdentity\<close> returns (it does not throw) exactly one
  result, decided by the checks in this order of precedence: MEMBER_REMOVED iff the member
  or server \<open>u\<close> was removed; otherwise MEMBER_UNKNOWN iff there is neither a member nor a
  server \<open>u\<close>; otherwise DEVICE_REMOVED iff the device was removed; otherwise
  DEVICE_UNKNOWN iff the member has no such device and \<open>u\<close> is not a server; otherwise
  VALID_DEVICE.
\<close>

theorem lookupIdentity_precedence:
  assumes "type identityClaim = DEVICE"
    and "parseDeviceId env (name identityClaim) = (u, d)"
  shows "\<exists>r. lookupIdentity env t identityClaim = Inr r \<and>
    (r = MEMBER_REMOVED \<longleftrightarrow> memberWasRemoved t u \<or> serverWasRemoved t u) \<and>
    (r = MEMBER_UNKNOWN \<longleftrightarrow>
       \<not> (memberWasRemoved t u \<or> serverWasRemoved t u) \<and> \<not> has t u \<and> \<not> hasServer t u) \<and>
    (r = DEVICE_REMOVED \<longleftrightarrow>
       \<not> (memberWasRemoved t u \<or> serverWasRemoved t u) \<and> \<not> (\<not> has t u \<and> \<not> hasServer t u) \<and>
       deviceWasRemoved env t u d) \<and>
    (r = DEVICE_UNKNOWN \<longleftrightarrow>
       \<not> (memberWasRemoved t u \<or> serverWasRemoved t u) \<and> \<not> (\<not> has t u \<and> \<not> hasServer t u) \<and>
       \<not> deviceWasRemoved env t u d \<and> \<not> hasDevice t u d \<and> \<not> hasServer t u) \<and>
    (r = VALID_DEVICE \<longleftrightarrow>
       \<not> (memberWasRemoved t u \<or> serverWasRemoved t u) \<and> \<not> (\<not> has t u \<and> \<not> hasServer t u) \<and>
       \<not> deviceWasRemoved env t u d \<and> \<not> (\<not> hasDevice t u d \<and> \<not> hasServer t u))"
  using assms by (auto simp: lookupIdentity_def assert_def)

theorem lookupIdentity_precedence_witness:
  "type \<lparr>type = DEVICE, name = ''alice::laptop''\<rparr> = DEVICE \<and>
   parseDeviceId exampleEnv (name \<lparr>type = DEVICE, name = ''alice::laptop''\<rparr>) = (''alice'', ''laptop'') \<and>
   lookupIdentity exampleEnv aliceTeam \<lparr>type = DEVICE, name = ''alice::laptop''\<rparr> = Inr VALID_DEVICE \<and>
   lookupIdentity exampleEnv aliceTeam \<lparr>type = DEVICE, name = ''alice::phone''\<rparr> = Inr DEVICE_UNKNOWN \<and>
   lookupIdentity exampleEnv aliceTeam \<lparr>type = DEVICE, name = ''bob::laptop''\<rparr> = Inr MEMBER_UNKNOWN"
proof -
  let ?c = "\<lparr>type = DEVICE, name = ''alice::laptop''\<rparr>"
  have h1: "type ?c = DEVICE" by simp
  have h2: "parseDeviceId exampleEnv (name ?c) = (''alice'', ''laptop'')"
    by (simp add: exampleEnv_def)
  have h3: "parseDeviceId exampleEnv ''alice::phone'' = (''alice'', ''phone'')"
    by (simp add: exampleEnv_def)
  have h4: "parseDeviceId exampleEnv ''bob::laptop'' = (''bob'', ''laptop'')"
    by (simp add: exampleEnv_def)
  have s: "\<not> memberWasRemoved aliceTeam u" "\<not> serverWasRemoved aliceTeam u"
    "has aliceTeam u \<longleftrightarrow> u = ''alice''" "\<not> hasServer aliceTeam u"
    "\<not> deviceWasRemoved exampleEnv aliceTeam u d"
    "hasDevice aliceTeam u d \<longleftrightarrow> u = ''alice'' \<and> d = ''laptop''" for u d
    by (auto simp: memberWasRemoved_def serverWasRemoved_def has_def hasServer_def
        deviceWasRemoved_def hasDevice_def select_memberWasRemoved_def
        select_serverWasRemoved_def select_hasMember_def select_hasServer_def
        select_deviceWasRemoved_def select_hasDevice_def memberDevices_def aliceTeam_state
        exampleMember_def exampleDevice_def)
  show ?thesis
    using lookupIdentity_precedence [OF h1 h2, of aliceTeam]
      lookupIdentity_precedence [of "\<lparr>type = DEVICE, name = ''alice::phone''\<rparr>" exampleEnv
        "''alice''" "''phone''" aliceTeam]
      lookupIdentity_precedence [of "\<lparr>type = DEVICE, name = ''bob::laptop''\<rparr>" exampleEnv
        "''bob''" "''laptop''" aliceTeam]
      h2 h3 h4
    by (auto simp: s)
qed

text \<open>A claim of any other scope type fails the assertion.\<close>

lemma lookupIdentity_asserts_device:
  "type identityClaim \<noteq> DEVICE \<Longrightarrow> \<exists>e. lookupIdentity env t identityClaim = Inl e"
  by (simp add: lookupIdentity_def assert_def)

subsection \<open>Validation of an invitation\<close>

text \<open>
  \<open>validateInvitation\<close> always returns a result (it does not throw), and the result is
  valid if and only if an invitation with the proof's id is in the team state,
  \<open>invitationCanBeUsed\<close> accepts it at the current time and \<open>validate\<close> accepts the proof
  for it. What the two checks accept is theirs to decide.
\<close>

lemma validateInvitation_checks:
  "\<exists>r. validateInvitation checks now t p = Inr r \<and>
     (isValid r \<longleftrightarrow>
        (\<exists>invitation. invitations (state t) (ProofOfInvitation.id p) = Some invitation \<and>
           isValid (invitationCanBeUsed checks invitation now) \<and>
           isValid (validate checks p invitation)))"
  by (auto simp: validateInvitation_def hasInvitation_def getInvitation_def
      select_hasInvitation_def select_getInvitation_def fail_def isValid_def Let_def
      split: option.splits)

subsection \<open>Protection of the last admin\<close>

text \<open>
  Claim C7. When the admin role has exactly one member, \<open>removeMemberRole\<close> for the admin
  role throws for every user id and leaves the team (graph and state) as it was;
  \<open>removeRole\<close> for the admin role always throws; when the admin role has more than one
  member, \<open>removeMemberRole\<close> dispatches the REMOVE_MEMBER_ROLE action with the rotated
  lockboxes.
\<close>

theorem last_admin_protection:
  "(length (membersInRole t ADMIN) = 1 \<longrightarrow>
      removeMemberRole n env u ADMIN t = Some (Inl (AssertionError ''Can't remove the last admin''), t)) \<and>
   removeRole n env ADMIN t = Some (Inl (AssertionError ''Cannot remove admin role''), t) \<and>
   (length (membersInRole t ADMIN) > 1 \<longrightarrow>
      removeMemberRole n env u ADMIN t =
        dispatch n env (REMOVE_MEMBER_ROLE u ADMIN
          (rotateKeys env t (AScope \<lparr>type = ROLE, name = ADMIN\<rparr>))) None t)"
  by (simp add: removeMemberRole_def removeRole_def assert_def)

lemma aliceBobTeam_state:
  "state aliceBobTeam = \<lparr>TeamState.head = [], teamName = ''team'',
     members = [exampleMember ''alice'' [ADMIN] [exampleDevice ''alice'' ''laptop''],
                exampleMember ''bob'' [ADMIN] []],
     servers = [], TeamState.roles = [], lockboxes = exampleRootLockboxes @ bobLockboxes,
     invitations = Map.empty, removedMembers = [], removedDevices = [], removedServers = [],
     pendingKeyRotations = []\<rparr>"
  by (simp add: example_defs)

lemma aliceBobGraph_state: "exampleState aliceBobGraph = state aliceBobTeam"
  by (simp add: aliceBobTeam_def teamOf_def exampleEnv_def)

lemma aliceBobTeam_context:
  "graph aliceBobTeam = aliceBobGraph"
  "context aliceBobTeam = exampleContext ''alice'' ''laptop''"
  by (simp_all add: aliceBobTeam_def teamOf_def)

lemma alice_teamKeys:
  "teamKeys exampleEnv aliceBobTeam None = Inr (exampleSecrets TEAM ''TEAM'')"
  by (simp add: teamKeys_def Team_keys_def TEAM_SCOPE_def exampleEnv_def exampleSelectKeys_def
      exampleVisibleKeys_def exampleOpen_def scopesMatch_def aliceBobTeam_state
      aliceBobTeam_context exampleRootLockboxes_def bobLockboxes_def exampleLockbox_def
      exampleKeys_def exampleSecrets_def exampleContext_def)

lemma aliceBob_rotateKeys:
  "rotateKeys exampleEnv aliceBobTeam (AScope \<lparr>type = ROLE, name = ADMIN\<rparr>) = rotatedAdminLockboxes"
  by (simp add: rotateKeys_def scopeOf_def Let_def exampleEnv_def exampleVisibleKeys_def
      exampleOpen_def scopesMatch_def aliceBobTeam_state exampleRootLockboxes_def
      bobLockboxes_def rotatedAdminLockboxes_def exampleLockbox_def exampleKeys_def
      exampleSecrets_def redactKeys_def)

lemma aliceBob_demote:
  "dispatch (Suc (Suc 0)) exampleEnv (REMOVE_MEMBER_ROLE ''bob'' ADMIN rotatedAdminLockboxes) None
       aliceBobTeam =
     Some (Inr (), aliceBobTeam\<lparr>
       graph := aliceBobGraph\<lparr>TeamGraph.head := [exampleHash 2],
         links := links aliceBobGraph @
           [exampleLink 2 ''alice'' [exampleHash 1]
              (REMOVE_MEMBER_ROLE ''bob'' ADMIN rotatedAdminLockboxes)]\<rparr>,
       state := (state aliceBobTeam)\<lparr>members :=
           [exampleMember ''alice'' [ADMIN] [exampleDevice ''alice'' ''laptop''],
            exampleMember ''bob'' [] []],
         lockboxes := exampleRootLockboxes @ bobLockboxes @ rotatedAdminLockboxes\<rparr>\<rparr>)"
proof -
  define g' where "g' = aliceBobGraph\<lparr>TeamGraph.head := [exampleHash 2],
         links := links aliceBobGraph @
           [exampleLink 2 ''alice'' [exampleHash 1]
              (REMOVE_MEMBER_ROLE ''bob'' ADMIN rotatedAdminLockboxes)]\<rparr>"
  define s' where "s' = (state aliceBobTeam)\<lparr>members :=
           [exampleMember ''alice'' [ADMIN] [exampleDevice ''alice'' ''laptop''],
            exampleMember ''bob'' [] []],
         lockboxes := exampleRootLockboxes @ bobLockboxes @ rotatedAdminLockboxes\<rparr>"
  note g = aliceBobTeam_context
  have author: "exampleAuthor (exampleContext ''alice'' ''laptop'') = ''alice''"
    by (simp add: exampleAuthor_def exampleContext_def)
  have admin: "select_memberIsAdmin (state aliceBobTeam) ''alice''"
    by (simp add: select_memberIsAdmin_def select_memberHasRole_def select_membersInRole_def
        aliceBobTeam_state exampleMember_def)
  have d: "store_dispatch exampleEnv (exampleContext ''alice'' ''laptop'') aliceBobGraph
        (REMOVE_MEMBER_ROLE ''bob'' ADMIN rotatedAdminLockboxes) (exampleSecrets TEAM ''TEAM'') =
      Inr g'"
    unfolding g'_def
    by (simp add: exampleEnv_def exampleDispatch_def author aliceBobGraph_state admin Let_def)
      (simp add: aliceBobGraph_def exampleLink_def eval_nat_numeral)
  have s: "store_getState exampleEnv g' = s'"
    unfolding g'_def s'_def by (simp add: aliceBobTeam_state) (simp add: example_defs)
  have u: "Team_userId (aliceBobTeam\<lparr>graph := g', state := s'\<rparr>) = ''alice''"
    by (simp add: Team_userId_def g exampleContext_def)
  have stillAdmin: "memberIsAdmin (aliceBobTeam\<lparr>graph := g', state := s'\<rparr>) ''alice''"
    by (simp add: memberIsAdmin_def select_memberIsAdmin_def select_memberHasRole_def
        select_membersInRole_def s'_def aliceBobTeam_state exampleMember_def)
  have noPending: "pendingKeyRotations s' = []"
    by (simp add: s'_def aliceBobTeam_state)
  have "dispatch (Suc (Suc 0)) exampleEnv (REMOVE_MEMBER_ROLE ''bob'' ADMIN rotatedAdminLockboxes)
      None aliceBobTeam = Some (Inr (), aliceBobTeam\<lparr>graph := g', state := s'\<rparr>)"
    by (simp add: alice_teamKeys d s g u stillAdmin noPending)
  then show ?thesis
    unfolding g'_def s'_def .
qed

theorem last_admin_protection_witness:
  "length (membersInRole aliceTeam ADMIN) = 1 \<and>
   removeMemberRole 2 exampleEnv ''alice'' ADMIN aliceTeam =
     Some (Inl (AssertionError ''Can't remove the last admin''), aliceTeam) \<and>
   removeRole 2 exampleEnv ADMIN aliceTeam =
     Some (Inl (AssertionError ''Cannot remove admin role''), aliceTeam) \<and>
   length (membersInRole aliceBobTeam ADMIN) > 1 \<and>
   removeMemberRole 2 exampleEnv ''bob'' ADMIN aliceBobTeam =
     Some (Inr (), aliceBobTeam\<lparr>
       graph := aliceBobGraph\<lparr>TeamGraph.head := [exampleHash 2],
         links := links aliceBobGraph @
           [exampleLink 2 ''alice'' [exampleHash 1]
              (REMOVE_MEMBER_ROLE ''bob'' ADMIN rotatedAdminLockboxes)]\<rparr>,
       state := (state aliceBobTeam)\<lparr>members :=
           [exampleMember ''alice'' [ADMIN] [exampleDevice ''alice'' ''laptop''],
            exampleMember ''bob'' [] []],
         lockboxes := exampleRootLockboxes @ bobLockboxes @ rotatedAdminLockboxes\<rparr>\<rparr>)"
proof -
  have one: "length (membersInRole aliceTeam ADMIN) = 1"
    by (simp add: membersInRole_def select_membersInRole_def aliceTeam_state exampleMember_def)
  have two: "length (membersInRole aliceBobTeam ADMIN) > 1"
    by (simp add: membersInRole_def select_membersInRole_def aliceBobTeam_state exampleMember_def)
  have a: "removeMemberRole 2 exampleEnv ''alice'' ADMIN aliceTeam =
      Some (Inl (AssertionError ''Can't remove the last admin''), aliceTeam)"
    using last_admin_protection [of aliceTeam 2 exampleEnv "''alice''"] one by blast
  have b: "removeRole 2 exampleEnv ADMIN aliceTeam =
      Some (Inl (AssertionError ''Cannot remove admin role''), aliceTeam)"
    using last_admin_protection [of aliceTeam 2 exampleEnv "''alice''"] by blast
  have c: "removeMemberRole 2 exampleEnv ''bob'' ADMIN aliceBobTeam =
      dispatch 2 exampleEnv (REMOVE_MEMBER_ROLE ''bob'' ADMIN
        (rotateKeys exampleEnv aliceBobTeam (AScope \<lparr>type = ROLE, name = ADMIN\<rparr>))) None aliceBobTeam"
    using last_admin_protection [of aliceBobTeam 2 exampleEnv "''bob''"] two by blast
  show ?thesis
    unfolding c aliceBob_rotateKeys numeral_2_eq_2 [symmetric]
    using one two a b aliceBob_demote [unfolded numeral_2_eq_2 [symmetric]] by blast
qed

subsection \<open>Invitations and joining on a server\<close>



lemma inviteMember_rejected_by_store:
  assumes "teamKeys env t None = Inr k"
    and "store_dispatch env (context t) (graph t)
           (INVITE_MEMBER (invitations_create env (normalize env seed0) expirationArg maxUsesArg None))
           k = Inl e"
  shows "inviteMember (Suc n) env (Some seed0) expirationArg maxUsesArg t = Some (Inl e, t)"
  using assms by (simp add: inviteMember_def Let_def)



subsection \<open>Looking up one member, one device\<close>

lemma find_userId_Some:
  "u \<in> set (map Member.userId ms) \<Longrightarrow>
     \<exists>m. find (\<lambda>x. Member.userId x = u) ms = Some m \<and> Member.userId m = u"
  by (induction ms) auto

lemma find_userId_None:
  "u \<notin> set (map Member.userId ms) \<Longrightarrow> find (\<lambda>x. Member.userId x = u) ms = None"
  by (induction ms) auto

lemma find_append:
  "find P (xs @ ys) = (case find P xs of None \<Rightarrow> find P ys | Some x \<Rightarrow> Some x)"
  by (induction xs) auto

text \<open>
  Claim C10, amended. \<open>Team.members(userId)\<close> without options behaves as with
  \<open>includeRemoved: true\<close>. For every user id other than the constant \<open>ALL\<close>: if the
  member was removed (and is not a member now, so that \<open>has\<close> is false) it returns that
  member's record, the first one of that user id among the removed members; and it throws
  iff the user id is neither a member nor a removed member. \<open>Team.device\<close> without options
  behaves as with \<open>includeRemoved: false\<close>: it throws unless the member has the device
  now, whether or not the device is among the removed ones.
\<close>

theorem members_default_includes_removed:
  "(u \<noteq> ALL_userId \<and> memberWasRemoved t u \<and> \<not> has t u \<longrightarrow>
      (\<exists>m. Team_members t (Some u) None = Inr (OneMember m) \<and> Member.userId m = u \<and>
           find (\<lambda>x. Member.userId x = u) (removedMembers (state t)) = Some m)) \<and>
   (u \<noteq> ALL_userId \<longrightarrow>
      ((\<exists>e. Team_members t (Some u) None = Inl e) \<longleftrightarrow> \<not> has t u \<and> \<not> memberWasRemoved t u)) \<and>
   Team_members t (Some u) None = Team_members t (Some u) (Some \<lparr>includeRemoved = True\<rparr>) \<and>
   Team_device t u d None = Team_device t u d (Some \<lparr>includeRemoved = False\<rparr>) \<and>
   (\<not> hasDevice t u d \<longrightarrow> (\<exists>e. Team_device t u d None = Inl e))"
proof (intro conjI impI)
  assume a: "u \<noteq> ALL_userId \<and> memberWasRemoved t u \<and> \<not> has t u"
  then obtain m where m: "find (\<lambda>x. Member.userId x = u) (removedMembers (state t)) = Some m"
      "Member.userId m = u"
    using find_userId_Some [of u "removedMembers (state t)"]
    by (auto simp: memberWasRemoved_def select_memberWasRemoved_def)
  from a have "find (\<lambda>x. Member.userId x = u) (members (state t)) = None"
    using find_userId_None [of u "members (state t)"]
    by (simp add: has_def select_hasMember_def)
  with a m show "\<exists>m. Team_members t (Some u) None = Inr (OneMember m) \<and> Member.userId m = u \<and>
           find (\<lambda>x. Member.userId x = u) (removedMembers (state t)) = Some m"
    by (simp add: Team_members_def select_member_def find_append)
next
  assume a: "u \<noteq> ALL_userId"
  show "(\<exists>e. Team_members t (Some u) None = Inl e) \<longleftrightarrow> \<not> has t u \<and> \<not> memberWasRemoved t u"
  proof
    assume "\<exists>e. Team_members t (Some u) None = Inl e"
    with a have "find (\<lambda>x. Member.userId x = u) (members (state t) @ removedMembers (state t)) = None"
      by (auto simp: Team_members_def select_member_def split: option.splits)
    then show "\<not> has t u \<and> \<not> memberWasRemoved t u"
      by (auto simp: find_None_iff has_def select_hasMember_def memberWasRemoved_def
          select_memberWasRemoved_def)
  next
    assume "\<not> has t u \<and> \<not> memberWasRemoved t u"
    then have "find (\<lambda>x. Member.userId x = u) (members (state t) @ removedMembers (state t)) = None"
      by (auto simp: find_None_iff has_def select_hasMember_def memberWasRemoved_def
          select_memberWasRemoved_def)
    with a show "\<exists>e. Team_members t (Some u) None = Inl e"
      by (simp add: Team_members_def select_member_def)
  qed
next
  show "Team_members t (Some u) None = Team_members t (Some u) (Some \<lparr>includeRemoved = True\<rparr>)"
    by (simp add: Team_members_def)
next
  show "Team_device t u d None = Team_device t u d (Some \<lparr>includeRemoved = False\<rparr>)"
    by (simp add: Team_device_def)
next
  assume "\<not> hasDevice t u d"
  then have "find (\<lambda>x. Device.deviceName x = d) (memberDevices (state t) u) = None"
    by (auto simp: find_None_iff hasDevice_def select_hasDevice_def)
  then show "\<exists>e. Team_device t u d None = Inl e"
    by (simp add: Team_device_def select_device_def)
qed

theorem members_default_includes_removed_witness:
  "''bob'' \<noteq> ALL_userId \<and> memberWasRemoved bobRemovedTeam ''bob'' \<and> \<not> has bobRemovedTeam ''bob'' \<and>
   Team_members bobRemovedTeam (Some ''bob'') None = Inr (OneMember (exampleMember ''bob'' [] [])) \<and>
   ''ned'' \<noteq> ALL_userId \<and> Team_members bobRemovedTeam (Some ''ned'') None = Inl (NotFound ''ned'') \<and>
   \<not> hasDevice bobRemovedTeam ''bob'' ''phone'' \<and>
   Team_device bobRemovedTeam ''bob'' ''phone'' None = Inl (NotFound ''phone'') \<and>
   Team_device bobRemovedTeam ''bob'' ''phone'' (Some \<lparr>includeRemoved = True\<rparr>) =
     Inr (exampleDevice ''bob'' ''phone'')"
  using members_default_includes_removed [of "''bob''" bobRemovedTeam "''phone''"]
    members_default_includes_removed [of "''ned''" bobRemovedTeam "''phone''"]
  by (simp add: ALL_userId_def memberWasRemoved_def has_def hasDevice_def
      select_memberWasRemoved_def select_hasMember_def select_hasDevice_def memberDevices_def
      Team_members_def Team_device_def select_member_def select_device_def
      bobRemovedTeam_def aliceTeam_state exampleMember_def exampleDevice_def)

text \<open>
  Claim C10 as stated fails for the user id \<open>ALL\<close>, the default value of the parameter:
  for a removed member with that user id, \<open>members\<close> returns the list of all current
  members and not the member's record.
\<close>

theorem members_ALL_counterexample:
  "memberWasRemoved allRemovedTeam ''ALL'' \<and> \<not> has allRemovedTeam ''ALL'' \<and>
   Team_members allRemovedTeam (Some ''ALL'') None =
     Inr (AllMembers [exampleMember ''alice'' [ADMIN] [exampleDevice ''alice'' ''laptop'']]) \<and>
   \<not> (\<exists>m. Team_members allRemovedTeam (Some ''ALL'') None = Inr (OneMember m))"
  by (simp add: ALL_userId_def memberWasRemoved_def has_def
      select_memberWasRemoved_def select_hasMember_def Team_members_def
      allRemovedTeam_def aliceTeam_state exampleMember_def)

end
